theory Spec2Isabelle
  imports Complex_Main
begin

section \<open>Errors\<close>

text \<open>
  What the source throws, one constructor for each \<open>throw\<close> and each kind of runtime
  error that the modelled functions can raise. \<open>FetchFailed\<close>, \<open>WriteFailed\<close> and
  \<open>ApiError\<close> carry the message of the error thrown by the HTTP client or the file system.
\<close>

datatype error =
    FetchFailed string
  | WriteFailed string
  | TypeError
  | InvalidPromptStructure
  | InvalidContentStructure
  | CredentialsNotConfigured
  | AuthenticationFailed
  | PermissionsInsufficient
  | ApiError string
  | QueueItemNotFound string
  | QueueItemAlreadyProcessed string

section \<open>JavaScript values and strings\<close>

text \<open>
  A JavaScript string is modelled as a \<^typ>\<open>string\<close> whose characters are the code units
  \<open>0..255\<close> (the Latin-1 range), so \<^const>\<open>length\<close> is the source's \<open>.length\<close>.
  Numbers that carry a confidence are modelled as \<^typ>\<open>real\<close>: the clamps of the source
  are \<open>Math.min\<close>/\<open>Math.max\<close>, which only compare, so the bounds they enforce do not depend
  on how the preceding addition is rounded.
\<close>

datatype jsval =
    JUndefined
  | JNull
  | JBool bool
  | JNum real
  | JStr string
  | JArr "jsval list"
  | JObj "(string \<times> jsval) list"

text \<open>An object literal with string keys, and the spread \<open>{...a, ...b}\<close> (later keys win).\<close>

type_synonym jsobject = "string \<rightharpoonup> jsval"

subsection \<open>Truthiness and property reads\<close>

text \<open>
  Reading a property of \<open>undefined\<close> or \<open>null\<close> raises a \<open>TypeError\<close>; an object gives
  the value of the first binding of the key, or \<open>undefined\<close>; the other values have none
  of the properties read in this development (\<open>logger\<close>, \<open>metadata\<close>, \<open>system\<close>,
  \<open>instructions\<close>, \<open>context\<close>, \<open>constraints\<close>, \<open>topic\<close>, \<open>summary\<close>).
\<close>

fun truthy :: "jsval \<Rightarrow> bool" where
  "truthy JUndefined = False"
| "truthy JNull = False"
| "truthy (JBool b) = b"
| "truthy (JNum x) = (x \<noteq> 0)"
| "truthy (JStr s) = (s \<noteq> [])"
| "truthy (JArr _) = True"
| "truthy (JObj _) = True"

fun get_prop :: "jsval \<Rightarrow> string \<Rightarrow> error + jsval" where
  "get_prop JUndefined key = Inl TypeError"
| "get_prop JNull key = Inl TypeError"
| "get_prop (JObj kvs) key = Inr (case map_of kvs key of None \<Rightarrow> JUndefined | Some v \<Rightarrow> v)"
| "get_prop _ key = Inr JUndefined"

subsection \<open>Whitespace\<close>

text \<open>
  The characters that the regular expression class \<open>\s\<close> and \<open>String.prototype.trim\<close>
  treat as white space, among the code units \<open>0..255\<close>: tab, line feed, vertical tab, form
  feed, carriage return, space and the no-break space.
\<close>

definition is_space :: "char \<Rightarrow> bool" where
  "is_space c = (c \<in> set [CHR 0x09, CHR 0x0A, CHR 0x0B, CHR 0x0C, CHR 0x0D, CHR 0x20, CHR 0xA0])"

text \<open>\<open>s.replace(/\s+/g, ' ')\<close>: every maximal run of white space becomes one space.\<close>

function collapse_ws :: "string \<Rightarrow> string" where
  "collapse_ws [] = []"
| "collapse_ws (c # cs) =
     (if is_space c then CHR '' '' # collapse_ws (dropWhile is_space cs) else c # collapse_ws cs)"
  by pat_completeness auto
termination
  by (relation "measure length") (auto simp: length_dropWhile_le le_imp_less_Suc)

text \<open>\<open>s.trim()\<close>: white space removed at both ends.\<close>

definition trim :: "string \<Rightarrow> string" where
  "trim s = rev (dropWhile is_space (rev (dropWhile is_space s)))"

text \<open>
  \<open>s.substring(0, e)\<close> for an integer \<open>e\<close>: a negative end counts as \<open>0\<close>, an end past
  the string as its length.
\<close>

definition substring0 :: "string \<Rightarrow> int \<Rightarrow> string" where
  "substring0 s e = take (nat e) s"

section \<open>utils/logger.js and utils/stateStore.js: the ledger\<close>

text \<open>
  \<open>utils/logger.js\<close> exports the \<open>Logger\<close> instance itself (\<open>module.exports = logger\<close>).
  Its only own property is \<open>level\<close> (2 unless \<open>LOG_LEVEL\<close> is set); its methods are
  inherited, and none of its properties is named \<open>logger\<close>. \<open>utils/stateStore.js\<close> binds its
  logger with \<open>const { logger } = require('./logger')\<close>, so in that file \<open>logger\<close> is
  \<open>undefined\<close>, and every \<open>logger.info\<close>, \<open>logger.debug\<close> and \<open>logger.error\<close> call
  of \<open>StateStore\<close> raises a \<open>TypeError\<close>. (The other modules bind the instance, whose
  methods print and return.)
\<close>

definition logger_exports :: jsval where
  "logger_exports = JObj [(''level'', JNum 2)]"

definition store_logger :: "error + jsval" where
  "store_logger = get_prop logger_exports ''logger''"

text \<open>A call \<open>lg.m(...)\<close> of a logging method on what a module bound as its logger.\<close>

definition log_with :: "error + jsval \<Rightarrow> error + unit" where
  "log_with lg =
     (case lg of
        Inl e \<Rightarrow> Inl e
      | Inr JUndefined \<Rightarrow> Inl TypeError
      | Inr JNull \<Rightarrow> Inl TypeError
      | Inr _ \<Rightarrow> Inr ())"

definition store_log :: "error + unit" where
  "store_log = log_with store_logger"

text \<open>
  \<open>this.state\<close> of \<open>StateStore\<close>. Every value stored under \<open>processed\<close> is an object
  (\<open>markProcessed\<close> is the only writer, and the state file holds what \<open>save()\<close> wrote),
  and an object is truthy, so \<open>!!processed[id]\<close> is the presence of the key. The keys
  are signal ids of the form \<open>kind:key\<close>; the lookup of a property name of
  \<open>Object.prototype\<close>, which would find the inherited property, is not modelled.
\<close>

record state_store =
  processed :: "string \<rightharpoonup> jsobject"
  executions :: "jsobject list"
  metadata :: "string \<rightharpoonup> jsval"

definition empty_state :: state_store where
  "empty_state = \<lparr>processed = Map.empty, executions = [], metadata = Map.empty\<rparr>"

text \<open>
  \<open>load()\<close>, which the constructor calls, on what it finds on disk: no state file, a file
  that \<open>JSON.parse\<close> rejects, or a file that holds a state. In the first two cases the
  \<open>try\<close> block ends in the \<open>catch\<close> block, whose \<open>logger.error\<close> call raises; only a
  file that parses gives a store.
\<close>

datatype state_file = NoFile | Unparsable | Parsed state_store

definition load :: "state_file \<Rightarrow> error + state_store" where
  "load file =
     (case file of
        NoFile \<Rightarrow>
          (case store_log of
             Inr _ \<Rightarrow> Inr empty_state
           | Inl _ \<Rightarrow> (case store_log of Inl e \<Rightarrow> Inl e | Inr _ \<Rightarrow> Inr empty_state))
      | Unparsable \<Rightarrow> (case store_log of Inl e \<Rightarrow> Inl e | Inr _ \<Rightarrow> Inr empty_state)
      | Parsed st \<Rightarrow> Inr st)"

text \<open>
  \<open>save()\<close>: the \<open>try\<close> block writes the file (\<open>write_ok\<close> tells whether
  \<open>fs.writeFileSync\<close> returns) and then calls \<open>logger.debug\<close>; the \<open>catch\<close> block calls
  \<open>logger.error\<close>, and what that call raises leaves \<open>save()\<close>. The state in memory is not
  changed.
\<close>

definition save :: "bool \<Rightarrow> state_store \<Rightarrow> error + unit" where
  "save write_ok st =
     (case (if write_ok then store_log else Inl (WriteFailed ''writeFileSync'')) of
        Inr u \<Rightarrow> Inr u
      | Inl _ \<Rightarrow> store_log)"


text \<open>
  \<open>markProcessed(signalId, metadata)\<close>: the assignment, then \<open>save()\<close>, then
  \<open>logger.info\<close>. The result is what the call throws (or that it returns) together with
  the state it leaves in memory. \<open>now\<close> is the value of \<open>new Date().toISOString()\<close> at
  the call.
\<close>

definition markProcessed ::
  "state_store \<Rightarrow> string \<Rightarrow> string \<Rightarrow> jsobject \<Rightarrow> bool \<Rightarrow> (error + unit) \<times> state_store" where
  "markProcessed st signalId now meta write_ok =
     (let st' = st\<lparr>processed := (processed st)(signalId \<mapsto> [''timestamp'' \<mapsto> JStr now] ++ meta)\<rparr>
      in (case save write_ok st' of
            Inl e \<Rightarrow> (Inl e, st')
          | Inr _ \<Rightarrow> (store_log, st')))"








section \<open>services/dataNormalizer.js\<close>

text \<open>
  \<open>sanitizeText(text, maxLength)\<close> on a string and an integer cap. The empty string is
  falsy, so the first line returns it as it is (as it does \<open>null\<close> and \<open>undefined\<close>,
  which are not strings and not in the model).
\<close>

definition sanitizeText :: "string \<Rightarrow> int \<Rightarrow> string" where
  "sanitizeText str maxLength =
     (if str = [] then []
      else let cleaned = trim (collapse_ws str)
           in if int (length cleaned) > maxLength
              then substring0 cleaned (maxLength - 3) @ ''...''
              else cleaned)"

definition maxContextLength :: int where
  "maxContextLength = 500"

definition maxTopicLength :: int where
  "maxTopicLength = 100"

section \<open>triggers/githubTrigger.js\<close>

text \<open>\<open>String(n)\<close> for a non-negative integer below \<open>2^53\<close>: its decimal digits.\<close>

definition digit_char :: "nat \<Rightarrow> char" where
  "digit_char d = ''0123456789'' ! d"

fun show_nat :: "nat \<Rightarrow> string" where
  "show_nat n = (if n < 10 then [digit_char n] else show_nat (n div 10) @ [digit_char (n mod 10)])"

declare show_nat.simps [simp del]




text \<open>The \<open>data\<close> object of a signal, one shape for each kind that the trigger builds.\<close>

datatype signal_data =
    CommitData (d_sha: string) (d_message: string) (d_author: string) (d_date: string)
      (d_url: string) (d_files_changed: nat)
  | ReadmeData string string string string nat
  | IssueData (d_number: nat) (d_title: string) (d_state: string) (d_issue_author: string)
      (d_created_at: string) (d_issue_url: string) (d_labels: "string list")

record signal =
  sig_type :: string
  sig_id :: string
  sig_data :: signal_data
  confidence :: real





text \<open>
  \<open>GitHubTrigger.markProcessed(signal)\<close>, with the two clock readings it causes. What
  \<open>stateStore.markProcessed\<close> throws leaves the method; its own \<open>logger.debug\<close> call comes
  after.
\<close>

definition trigger_markProcessed ::
  "state_store \<Rightarrow> signal \<Rightarrow> string \<Rightarrow> string \<Rightarrow> bool \<Rightarrow> (error + unit) \<times> state_store" where
  "trigger_markProcessed st s now_outer now_inner write_ok =
     markProcessed st (sig_id s) now_inner
       [''type'' \<mapsto> JStr (sig_type s), ''timestamp'' \<mapsto> JStr now_outer,
        ''confidence'' \<mapsto> JNum (confidence s)] write_ok"

section \<open>triggers/signalClassifier.js\<close>

text \<open>
  The word characters of \<open>\b\<close>, and \<open>toLowerCase\<close> on the code units \<open>0..255\<close>.
\<close>

definition is_word_char :: "char \<Rightarrow> bool" where
  "is_word_char c =
     (let n = (of_char c :: nat)
      in (48 \<le> n \<and> n \<le> 57) \<or> (65 \<le> n \<and> n \<le> 90) \<or> n = 95 \<or> (97 \<le> n \<and> n \<le> 122))"

definition to_lower_char :: "char \<Rightarrow> char" where
  "to_lower_char c =
     (let n = (of_char c :: nat)
      in if (65 \<le> n \<and> n \<le> 90) \<or> (192 \<le> n \<and> n \<le> 222 \<and> n \<noteq> 215) then char_of (n + 32) else c)"

definition toLowerCase :: "string \<Rightarrow> string" where
  "toLowerCase s = map to_lower_char s"

text \<open>
  \<open>/\b(w1|w2|...)\b/i.test(s)\<close> for alternatives that are lower-case words, on a string
  that went through \<open>toLowerCase\<close> (so the flag \<open>i\<close> adds nothing): some alternative occurs
  in \<open>s\<close> with no word character right before it and none right after it. An optional
  last letter, as in \<open>docs?\<close>, is written as two alternatives.
\<close>

definition matches_word_at :: "string \<Rightarrow> string \<Rightarrow> bool" where
  "matches_word_at w s =
     (take (length w) s = w \<and>
      (case drop (length w) s of [] \<Rightarrow> True | c # _ \<Rightarrow> \<not> is_word_char c))"

fun word_search :: "string list \<Rightarrow> bool \<Rightarrow> string \<Rightarrow> bool" where
  "word_search ws prev_word [] = False"
| "word_search ws prev_word (c # cs) =
     (if \<not> prev_word \<and> list_ex (\<lambda>w. matches_word_at w (c # cs)) ws then True
      else word_search ws (is_word_char c) cs)"

definition test_words :: "string list \<Rightarrow> string \<Rightarrow> bool" where
  "test_words ws s = word_search ws False s"

text \<open>\<open>Math.max(0.3, Math.min(1.0, x))\<close>.\<close>

definition clamp_confidence :: "real \<Rightarrow> real" where
  "clamp_confidence x = max 0.3 (min 1.0 x)"

record classification =
  cls_method :: string
  original_confidence :: "real option"

text \<open>
  A classified signal is the spread of the signal with \<open>category\<close> and \<open>classification\<close>
  added; \<open>confidence\<close> is the signal's field, overwritten where the source overwrites it.
\<close>

record classified = signal +
  category :: string
  classification :: classification

definition classified_of :: "signal \<Rightarrow> string \<Rightarrow> real \<Rightarrow> classification \<Rightarrow> classified" where
  "classified_of s cat conf cls =
     \<lparr>sig_type = sig_type s, sig_id = sig_id s, sig_data = sig_data s, confidence = conf,
      category = cat, classification = cls\<rparr>"

text \<open>
  \<open>classifyCommit\<close> reads \<open>signal.data.sha\<close> and \<open>signal.data.message\<close> as strings and
  \<open>classifyIssue\<close> reads \<open>signal.data.title\<close> and \<open>signal.data.labels\<close>; on a \<open>data\<close>
  object of another shape these reads raise a \<open>TypeError\<close>.
\<close>

definition commit_rule :: "string \<Rightarrow> string \<times> real" where
  "commit_rule message =
     (if test_words [''feat'', ''feature'', ''add'', ''implement''] message then (''code'', 0.1)
      else if test_words [''doc'', ''docs'', ''readme'', ''documentation''] message then (''docs'', 0.15)
      else if test_words [''fix'', ''bug'', ''patch'', ''hotfix''] message then (''code'', 0.05)
      else if test_words [''config'', ''setup'', ''build'', ''ci'', ''cd''] message then (''config'', - 0.05)
      else if test_words [''refactor'', ''cleanup'', ''style''] message then (''code'', 0)
      else (''unknown'', 0))"

definition classifyCommit :: "signal \<Rightarrow> error + classified" where
  "classifyCommit s =
     (case sig_data s of
        CommitData sha msg author date url files \<Rightarrow>
          (let message = toLowerCase msg;
               (category, confidenceAdjustment) = commit_rule message;
               finalConfidence = clamp_confidence (confidence s + confidenceAdjustment)
           in Inr (classified_of s category finalConfidence
                \<lparr>cls_method = ''commit_message_heuristic'', original_confidence = Some (confidence s)\<rparr>))
      | _ \<Rightarrow> Inl TypeError)"

definition classifyReadme :: "signal \<Rightarrow> classified" where
  "classifyReadme s =
     classified_of s ''docs'' (min 1.0 (confidence s + 0.1))
       \<lparr>cls_method = ''readme_direct'', original_confidence = Some (confidence s)\<rparr>"

definition issue_label_rule :: "string list \<Rightarrow> string \<times> real" where
  "issue_label_rule labels =
     (if ''bug'' \<in> set labels \<or> ''fix'' \<in> set labels then (''code'', 0.05)
      else if ''documentation'' \<in> set labels \<or> ''docs'' \<in> set labels then (''docs'', 0.1)
      else if ''feature'' \<in> set labels \<or> ''enhancement'' \<in> set labels then (''code'', 0.1)
      else (''unknown'', 0))"

definition issue_title_rule :: "string \<Rightarrow> string \<times> real" where
  "issue_title_rule title =
     (if test_words [''bug'', ''error'', ''broken'', ''crash''] title then (''code'', 0)
      else if test_words [''doc'', ''docs'', ''readme'', ''documentation''] title then (''docs'', 0.05)
      else if test_words [''feature'', ''enhancement'', ''improve''] title then (''code'', 0.05)
      else (''unknown'', 0))"

definition classifyIssue :: "signal \<Rightarrow> error + classified" where
  "classifyIssue s =
     (case sig_data s of
        IssueData number ttl state author created url labels \<Rightarrow>
          (let title = toLowerCase ttl;
               (category, confidenceAdjustment) =
                  (if fst (issue_label_rule labels) = ''unknown'' then issue_title_rule title
                   else issue_label_rule labels);
               finalConfidence = clamp_confidence (confidence s + confidenceAdjustment)
           in Inr (classified_of s category finalConfidence
                \<lparr>cls_method = ''issue_labels_title'', original_confidence = Some (confidence s)\<rparr>))
      | _ \<Rightarrow> Inl TypeError)"

definition classify :: "signal \<Rightarrow> error + classified" where
  "classify s =
     (if sig_type s = ''commit'' then classifyCommit s
      else if sig_type s = ''readme_update'' then Inr (classifyReadme s)
      else if sig_type s = ''issue'' then classifyIssue s
      else Inr (classified_of s ''unknown'' (confidence s)
             \<lparr>cls_method = ''unhandled_type'', original_confidence = None\<rparr>))"

definition classifyBatch :: "signal list \<Rightarrow> (error + classified) list" where
  "classifyBatch signals = map classify signals"

definition filterByConfidence :: "classified list \<Rightarrow> real \<Rightarrow> classified list" where
  "filterByConfidence signals minConfidence = filter (\<lambda>s. confidence s \<ge> minConfidence) signals"

text \<open>The shape of \<open>data\<close> that the classifier of the signal's type reads.\<close>

definition data_fits_type :: "signal \<Rightarrow> bool" where
  "data_fits_type s =
     (if sig_type s = ''commit'' then (case sig_data s of CommitData _ _ _ _ _ _ \<Rightarrow> True | _ \<Rightarrow> False)
      else if sig_type s = ''issue'' then (case sig_data s of IssueData _ _ _ _ _ _ _ \<Rightarrow> True | _ \<Rightarrow> False)
      else True)"

text \<open>The confidence of the classified signal, when \<open>classify\<close> returns one.\<close>

definition result_confidence :: "error + classified \<Rightarrow> real option" where
  "result_confidence r = (case r of Inl _ \<Rightarrow> None | Inr c \<Rightarrow> Some (confidence c))"

definition result_category :: "error + classified \<Rightarrow> string option" where
  "result_category r = (case r of Inl _ \<Rightarrow> None | Inr c \<Rightarrow> Some (category c))"

definition confidence_in_range :: "error + classified \<Rightarrow> bool" where
  "confidence_in_range r = (case r of Inl _ \<Rightarrow> False | Inr c \<Rightarrow> 0.3 \<le> confidence c \<and> confidence c \<le> 1)"

section \<open>services/linkedinPublisher.js\<close>

text \<open>
  The content handed to the publisher: an object whose \<open>text\<close> is a string (or is missing
  or not a string: \<open>None\<close>), with an optional image and optional metadata. A field that
  the source only tests for truthiness is \<open>None\<close> when it is missing or empty.
\<close>

record image =
  image_url :: "string option"
  image_alt :: "string option"
  image_uploadedUrn :: "string option"

record content_metadata =
  meta_topic :: "string option"
  meta_signalType :: "string option"

record content =
  content_text :: "string option"
  content_image :: "image option"
  content_meta :: "content_metadata option"

text \<open>\<open>this.config\<close>; \<open>process.env.X || null\<close> is \<open>None\<close> for an unset or empty variable.\<close>

record config =
  apiBaseUrl :: string
  accessToken :: "string option"
  personUrn :: "string option"
  autoPublish :: bool

record queue_item =
  item_id :: string
  item_content :: content
  item_status :: string
  item_createdAt :: string
  item_topic :: "string option"
  item_signalType :: "string option"
  item_publishedAt :: "string option"
  item_postId :: "string option option"

text \<open>
  A queue item has no \<open>publishedAt\<close> and no \<open>postId\<close> until it is published
  (\<open>None\<close>); \<open>postId\<close> is then set to the post id of the result, which is \<open>undefined\<close>
  (\<open>Some None\<close>) when the response carries none.
\<close>

record publisher =
  cfg :: config
  queue :: "queue_item list"

text \<open>The payload of the LinkedIn UGC post and the outcome of \<open>axios.post\<close>.\<close>

record share_media =
  media_description :: string
  media_ref :: string
  media_title :: string

record share_payload =
  share_author :: string
  share_commentary :: "string option"
  share_mediaCategory :: string
  share_media :: "share_media list"

datatype http_outcome =
    HttpResponse "string option" "string option"
  | HttpError "nat option" string

text \<open>
  \<open>HttpResponse d h\<close>: the call returned, with \<open>response.data.id\<close> and the header
  \<open>x-restli-id\<close>. \<open>HttpError status message\<close>: the call threw (a timeout and a
  transport failure have no status).

  What one call reads from outside: \<open>Date.now()\<close>, \<open>new Date().toISOString()\<close> (and a
  second reading of it later in the same call), \<open>Math.random().toString(36)\<close>, and the
  publish capability.
\<close>

record env =
  now_ms :: nat
  now_iso :: string
  now_iso_later :: string
  random36 :: string
  post :: "share_payload \<Rightarrow> http_outcome"

record published =
  pub_postId :: "string option"
  pub_publishedAt :: string
  pub_url :: string

datatype publish_result =
    Queued string
  | PublishedPost published
  | FailedQueued error publish_result

text \<open>
  \<open>Queued q\<close> is \<open>{status: 'queued', queueId: q, ...}\<close>; \<open>FailedQueued e r\<close> is the result
  of the \<open>catch\<close> block of \<open>publish\<close>: \<open>{status: 'error', error: e.message, fallback: ...,
  queueId: r}\<close>, where \<open>r\<close> is the whole result of \<open>_queuePost\<close>.
\<close>

fun result_status :: "publish_result \<Rightarrow> string" where
  "result_status (Queued _) = ''queued''"
| "result_status (PublishedPost _) = ''published''"
| "result_status (FailedQueued _ _) = ''error''"

definition validateContent :: "content \<Rightarrow> bool" where
  "validateContent c =
     (case content_text c of
        None \<Rightarrow> False
      | Some t \<Rightarrow> if length t = 0 then False else if length t > 3000 then False else True)"

text \<open>\<open>s.substr(start, len)\<close> for non-negative arguments.\<close>

definition substr :: "string \<Rightarrow> nat \<Rightarrow> nat \<Rightarrow> string" where
  "substr s start len = take len (drop start s)"

definition queue_item_id :: "nat \<Rightarrow> string \<Rightarrow> string" where
  "queue_item_id ms rnd = ''queue_'' @ show_nat ms @ ''_'' @ substr rnd 2 9"

definition new_queue_item :: "env \<Rightarrow> content \<Rightarrow> queue_item" where
  "new_queue_item e c =
     \<lparr>item_id = queue_item_id (now_ms e) (random36 e),
      item_content = c,
      item_status = ''pending'',
      item_createdAt = now_iso e,
      item_topic = (case content_meta c of None \<Rightarrow> None | Some m \<Rightarrow> meta_topic m),
      item_signalType = (case content_meta c of None \<Rightarrow> None | Some m \<Rightarrow> meta_signalType m),
      item_publishedAt = None,
      item_postId = None\<rparr>"

definition queuePost :: "publisher \<Rightarrow> env \<Rightarrow> content \<Rightarrow> publish_result \<times> publisher" where
  "queuePost st e c =
     (let queueItem = new_queue_item e c
      in (Queued (item_id queueItem), st\<lparr>queue := queue st @ [queueItem]\<rparr>))"

definition build_share_payload :: "string \<Rightarrow> content \<Rightarrow> share_payload" where
  "build_share_payload urn c =
     (let url = (case content_image c of None \<Rightarrow> None | Some i \<Rightarrow> image_url i)
      in \<lparr>share_author = urn,
          share_commentary = content_text c,
          share_mediaCategory = (if url \<noteq> None then ''IMAGE'' else ''NONE''),
          share_media =
            (case content_image c of
               None \<Rightarrow> []
             | Some i \<Rightarrow>
                 (case image_url i of
                    None \<Rightarrow> []
                  | Some u \<Rightarrow>
                      [\<lparr>media_description = (case image_alt i of None \<Rightarrow> [] | Some a \<Rightarrow> a),
                        media_ref = (case image_uploadedUrn i of None \<Rightarrow> u | Some n \<Rightarrow> n),
                        media_title =
                          (case content_meta c of
                             None \<Rightarrow> ''LinkedIn Post''
                           | Some m \<Rightarrow> (case meta_topic m of None \<Rightarrow> ''LinkedIn Post'' | Some t \<Rightarrow> t))\<rparr>]))\<rparr>)"

definition attemptAutoPublish :: "config \<Rightarrow> env \<Rightarrow> content \<Rightarrow> error + published" where
  "attemptAutoPublish cf e c =
     (case (accessToken cf, personUrn cf) of
        (Some token, Some urn) \<Rightarrow>
          (case post e (build_share_payload urn c) of
             HttpResponse data_id header_id \<Rightarrow>
               (let postId = (case data_id of Some i \<Rightarrow> Some i | None \<Rightarrow> header_id)
                in Inr \<lparr>pub_postId = postId,
                        pub_publishedAt = now_iso e,
                        pub_url = ''https://www.linkedin.com/feed/update/''
                          @ (case postId of None \<Rightarrow> ''undefined'' | Some p \<Rightarrow> p) @ ''/''\<rparr>)
           | HttpError status message \<Rightarrow>
               (if status = Some 401 then Inl AuthenticationFailed
                else if status = Some 403 then Inl PermissionsInsufficient
                else Inl (ApiError message)))
      | _ \<Rightarrow> Inl CredentialsNotConfigured)"

text \<open>
  \<open>publish(content)\<close> for a content object. The \<open>catch\<close> block queues the content and
  reports the error in the result, so the call itself does not throw.
\<close>

definition publish_failed :: "publisher \<Rightarrow> env \<Rightarrow> content \<Rightarrow> error \<Rightarrow> publish_result \<times> publisher" where
  "publish_failed st e c err =
     (let (queued, st') = queuePost st e c in (FailedQueued err queued, st'))"

definition publish :: "publisher \<Rightarrow> env \<Rightarrow> content \<Rightarrow> publish_result \<times> publisher" where
  "publish st e c =
     (if \<not> validateContent c then publish_failed st e c InvalidContentStructure
      else if \<not> autoPublish (cfg st) \<or> accessToken (cfg st) = None then queuePost st e c
      else (case attemptAutoPublish (cfg st) e c of
              Inr p \<Rightarrow> (PublishedPost p, st)
            | Inl err \<Rightarrow> publish_failed st e c err))"

definition getQueue :: "publisher \<Rightarrow> string \<Rightarrow> queue_item list" where
  "getQueue st status =
     (if status = ''all'' then queue st else filter (\<lambda>item. item_status item = status) (queue st))"

text \<open>
  \<open>this.queue.find(item => item.id === queueId)\<close> gives the first item with that id; the
  assignments to its fields change that item in place.
\<close>

definition find_item :: "publisher \<Rightarrow> string \<Rightarrow> queue_item option" where
  "find_item st queueId = find (\<lambda>item. item_id item = queueId) (queue st)"

fun update_first :: "string \<Rightarrow> (queue_item \<Rightarrow> queue_item) \<Rightarrow> queue_item list \<Rightarrow> queue_item list" where
  "update_first queueId f [] = []"
| "update_first queueId f (item # items) =
     (if item_id item = queueId then f item # items else item # update_first queueId f items)"

definition mark_published :: "env \<Rightarrow> published \<Rightarrow> queue_item \<Rightarrow> queue_item" where
  "mark_published e r item =
     item\<lparr>item_status := ''published'',
          item_publishedAt := Some (now_iso_later e),
          item_postId := Some (pub_postId r)\<rparr>"

definition publishFromQueue :: "publisher \<Rightarrow> env \<Rightarrow> string \<Rightarrow> (error + published) \<times> publisher" where
  "publishFromQueue st e queueId =
     (case find_item st queueId of
        None \<Rightarrow> (Inl (QueueItemNotFound queueId), st)
      | Some queueItem \<Rightarrow>
          if item_status queueItem \<noteq> ''pending'' then (Inl (QueueItemAlreadyProcessed queueId), st)
          else (case attemptAutoPublish (cfg st) e (item_content queueItem) of
                  Inl err \<Rightarrow> (Inl err, st)
                | Inr result \<Rightarrow>
                    (Inr result,
                     st\<lparr>queue := update_first queueId (mark_published e result) (queue st)\<rparr>)))"

fun remove_first :: "string \<Rightarrow> queue_item list \<Rightarrow> queue_item list" where
  "remove_first queueId [] = []"
| "remove_first queueId (item # items) =
     (if item_id item = queueId then items else item # remove_first queueId items)"

definition removeFromQueue :: "publisher \<Rightarrow> string \<Rightarrow> bool \<times> publisher" where
  "removeFromQueue st queueId =
     (if find_item st queueId \<noteq> None then (True, st\<lparr>queue := remove_first queueId (queue st)\<rparr>)
      else (False, st))"

section \<open>services/contentGenerator.js\<close>

text \<open>A prompt is any JavaScript value; its fields are read with \<open>get_prop\<close>.\<close>

text \<open>\<open>required.every(field => prompt[field])\<close>, which stops at the first falsy field.\<close>

fun every_truthy :: "jsval \<Rightarrow> string list \<Rightarrow> error + bool" where
  "every_truthy prompt [] = Inr True"
| "every_truthy prompt (field # rest) =
     (case get_prop prompt field of
        Inl e \<Rightarrow> Inl e
      | Inr v \<Rightarrow> if truthy v then every_truthy prompt rest else Inr False)"

definition validatePrompt :: "jsval \<Rightarrow> error + bool" where
  "validatePrompt prompt =
     every_truthy prompt [''metadata'', ''system'', ''instructions'', ''context'', ''constraints'']"

text \<open>
  The result objects of the generator before and after \<open>_validateOutput\<close>. The result of
  the \<open>catch\<close> block of \<open>generate\<close> has no \<open>model\<close>, and its metadata holds the message of
  the error.
\<close>

record raw_result =
  raw_text :: string
  raw_provider :: string
  raw_model :: string
  raw_metadata :: jsobject

datatype generated_metadata = Metadata jsobject | ErrorMessage error

record generated =
  gen_text :: "string option"
  gen_provider :: string
  gen_model :: "string option"
  gen_metadata :: generated_metadata

definition newline :: char where
  "newline = CHR 0x0A"

text \<open>
  \<open>_generateFallback(prompt)\<close>. The template reads \<open>metadata.topic\<close>, then
  \<open>context.summary?.substring(0, 50) || 'Details about signal'\<close>, then calls
  \<open>metadata.topic.replace(/\s+/g, '')\<close>. \<open>substring\<close> exists on a string only, and so does
  \<open>replace\<close>: on a summary that is neither nullish nor a string, and on a topic that is
  not a string, the call raises a \<open>TypeError\<close>.
\<close>

definition summary_excerpt :: "jsval \<Rightarrow> error + string" where
  "summary_excerpt summary =
     (case summary of
        JUndefined \<Rightarrow> Inr ''Details about signal''
      | JNull \<Rightarrow> Inr ''Details about signal''
      | JStr s \<Rightarrow> Inr (if take 50 s = [] then ''Details about signal'' else take 50 s)
      | _ \<Rightarrow> Inl TypeError)"

definition fallback_text :: "string \<Rightarrow> string \<Rightarrow> string" where
  "fallback_text topic excerpt =
     ''[PLACEHOLDER: LinkedIn post about '' @ topic @ '']'' @ [newline, newline]
     @ ''[Hook: Opening statement]'' @ [newline, newline]
     @ ''[Context: '' @ excerpt @ ''...]'' @ [newline, newline]
     @ ''[Call-to-action]'' @ [newline, newline]
     @ ''#'' @ filter (\<lambda>c. \<not> is_space c) topic @ '' #Automation''"

definition generateFallback :: "jsval \<Rightarrow> string \<Rightarrow> error + raw_result" where
  "generateFallback prompt stamp =
     (case get_prop prompt ''metadata'' of
        Inl e \<Rightarrow> Inl e
      | Inr meta \<Rightarrow>
     (case get_prop prompt ''context'' of
        Inl e \<Rightarrow> Inl e
      | Inr context \<Rightarrow>
     (case get_prop meta ''topic'' of
        Inl e \<Rightarrow> Inl e
      | Inr topic \<Rightarrow>
     (case get_prop context ''summary'' of
        Inl e \<Rightarrow> Inl e
      | Inr summary \<Rightarrow>
     (case summary_excerpt summary of
        Inl e \<Rightarrow> Inl e
      | Inr excerpt \<Rightarrow>
     (case topic of
        JStr t \<Rightarrow>
          Inr \<lparr>raw_text = fallback_text t excerpt,
               raw_provider = ''fallback'',
               raw_model = ''template'',
               raw_metadata =
                 [''warning'' \<mapsto> JStr ''Fallback template used - requires manual editing'',
                  ''timestamp'' \<mapsto> JStr stamp]\<rparr>
      | _ \<Rightarrow> Inl TypeError))))))"

text \<open>
  \<open>_cleanGeneratedText\<close>: trim, delete the instruction tags (scanning from the left, the
  alternatives in the order of the regular expression), replace every run of three or more
  line feeds by two, and keep the first 3000 characters.
\<close>

definition instruction_tags :: "string list" where
  "instruction_tags = [''[INST]'', ''[/INST]'', ''<s>'', ''</s>'']"

definition tag_at :: "string \<Rightarrow> string option" where
  "tag_at s = find (\<lambda>tag. take (length tag) s = tag) instruction_tags"

function strip_tags :: "string \<Rightarrow> string" where
  "strip_tags [] = []"
| "strip_tags (c # cs) =
     (case tag_at (c # cs) of
        Some tag \<Rightarrow> strip_tags (drop (length tag) (c # cs))
      | None \<Rightarrow> c # strip_tags cs)"
  by pat_completeness auto
termination
  by (relation "measure length") (auto simp: tag_at_def instruction_tags_def split: if_splits)

function collapse_newlines :: "string \<Rightarrow> string" where
  "collapse_newlines [] = []"
| "collapse_newlines (c # cs) =
     (if c = newline
      then (if length (takeWhile (\<lambda>d. d = newline) cs) \<ge> 2
            then [newline, newline]
            else newline # takeWhile (\<lambda>d. d = newline) cs)
           @ collapse_newlines (dropWhile (\<lambda>d. d = newline) cs)
      else c # collapse_newlines cs)"
  by pat_completeness auto
termination
  by (relation "measure length") (auto simp: length_dropWhile_le le_imp_less_Suc)

definition cleanGeneratedText :: "string \<Rightarrow> string" where
  "cleanGeneratedText s = take 3000 (collapse_newlines (strip_tags (trim s)))"

text \<open>
  \<open>_generateWithHuggingFace\<close>. Without a token it returns \<open>null\<close> at once. With one, the
  outcome of its \<open>try\<close> block is given from outside: formatting the prompt or the HTTP call
  threw (with the status of the response, if there was one; a timeout has none), the
  response came without a generated text, or it came with one. Every error is caught
  there and turned into \<open>null\<close>.
\<close>

datatype hf_outcome = HfThrows "nat option" | HfNoText | HfText string

record generator =
  hfToken :: "string option"
  lastCallTime :: nat

record gen_env =
  clock_after_wait :: nat
  iso_result :: string
  iso_validated :: string
  hf :: hf_outcome

definition text_model :: string where
  "text_model = ''mistralai/Mistral-7B-Instruct-v0.2''"

definition generateWithHuggingFace :: "generator \<Rightarrow> gen_env \<Rightarrow> raw_result option" where
  "generateWithHuggingFace g e =
     (case hfToken g of
        None \<Rightarrow> None
      | Some token \<Rightarrow>
          (case hf e of
             HfThrows status \<Rightarrow> None
           | HfNoText \<Rightarrow> None
           | HfText t \<Rightarrow>
               if t = [] then None
               else Some \<lparr>raw_text = cleanGeneratedText t,
                          raw_provider = ''huggingface'',
                          raw_model = text_model,
                          raw_metadata =
                            [''tokens'' \<mapsto> JNum (real (length t)), ''timestamp'' \<mapsto> JStr (iso_result e)]\<rparr>))"

definition validateOutput :: "raw_result \<Rightarrow> string \<Rightarrow> generated" where
  "validateOutput r stamp =
     \<lparr>gen_text = (if raw_text r = [] then None else Some (raw_text r)),
      gen_provider = (if raw_provider r = [] then ''unknown'' else raw_provider r),
      gen_model = Some (if raw_model r = [] then ''unknown'' else raw_model r),
      gen_metadata = Metadata ((raw_metadata r)(''validated'' \<mapsto> JBool True, ''timestamp'' \<mapsto> JStr stamp))\<rparr>"

definition error_result :: "error \<Rightarrow> generated" where
  "error_result e =
     \<lparr>gen_text = None, gen_provider = ''error'', gen_model = None, gen_metadata = ErrorMessage e\<rparr>"

text \<open>
  \<open>generate(prompt)\<close>. Everything runs inside one \<open>try\<close>; the \<open>catch\<close> block returns the
  error result. \<open>_enforceRateLimit\<close> waits and then stores the clock in \<open>lastCallTime\<close>.
  The log call after \<open>_validateOutput\<close> reads \<open>validated.text.length\<close>, which raises a
  \<open>TypeError\<close> when the validated text is \<open>null\<close>.
\<close>

definition finish_generation :: "raw_result \<Rightarrow> string \<Rightarrow> generated" where
  "finish_generation r stamp =
     (let validated = validateOutput r stamp
      in if gen_text validated = None then error_result TypeError else validated)"

definition generate :: "generator \<Rightarrow> jsval \<Rightarrow> gen_env \<Rightarrow> generated \<times> generator" where
  "generate g prompt e =
     (case validatePrompt prompt of
        Inl err \<Rightarrow> (error_result err, g)
      | Inr False \<Rightarrow> (error_result InvalidPromptStructure, g)
      | Inr True \<Rightarrow>
          (let g' = g\<lparr>lastCallTime := clock_after_wait e\<rparr>
           in (case generateWithHuggingFace g' e of
                 Some result \<Rightarrow> (finish_generation result (iso_validated e), g')
               | None \<Rightarrow>
                   (case generateFallback prompt (iso_result e) of
                      Inl err \<Rightarrow> (error_result err, g')
                    | Inr result \<Rightarrow> (finish_generation result (iso_validated e), g')))))"

section \<open>Auxiliary notions for the proofs\<close>

text \<open>
  A string in which white space occurs only as single spaces, and a string that neither
  starts nor ends with white space: together they are the fixed points of collapsing and
  trimming.
\<close>

fun spaced :: "string \<Rightarrow> bool" where
  "spaced [] = True"
| "spaced (c # cs) =
     ((if is_space c then c = CHR '' '' \<and> (cs = [] \<or> \<not> is_space (hd cs)) else True) \<and> spaced cs)"

definition edges_ok :: "string \<Rightarrow> bool" where
  "edges_ok s = (s = [] \<or> (\<not> is_space (hd s) \<and> \<not> is_space (last s)))"

text \<open>The decimal digits read back, for the proof that \<open>show_nat\<close> is injective.\<close>

definition read_nat :: "string \<Rightarrow> nat" where
  "read_nat s = foldl (\<lambda>acc c. 10 * acc + (of_char c - 48)) 0 s"

section \<open>Concrete inputs\<close>














definition issue_signal :: signal where
  "issue_signal = \<lparr>sig_type = ''issue'', sig_id = ''issue:7'',
     sig_data = IssueData 7 ''Fix login bug'' ''open'' ''dev'' ''2024-01-03'' ''https://example.org/7'' [''bug''],
     confidence = 0.6\<rparr>"

definition release_signal :: signal where
  "release_signal = \<lparr>sig_type = ''release'', sig_id = ''release:1'',
     sig_data = ReadmeData ''s'' ''n'' ''p'' ''u'' 0, confidence = 0.1\<rparr>"

definition low_readme_signal :: signal where
  "low_readme_signal = \<lparr>sig_type = ''readme_update'', sig_id = ''readme:s'',
     sig_data = ReadmeData ''s'' ''README.md'' ''README.md'' ''u'' 10, confidence = 0.1\<rparr>"

definition readme_signal :: signal where
  "readme_signal = \<lparr>sig_type = ''readme_update'', sig_id = ''readme:r1'',
     sig_data = ReadmeData ''r1'' ''README.md'' ''README.md'' ''https://example.org/readme'' 2048,
     confidence = 0.8\<rparr>"

definition queue_only :: publisher where
  "queue_only = \<lparr>cfg = \<lparr>apiBaseUrl = ''https://api.linkedin.com/v2'', accessToken = None,
     personUrn = None, autoPublish = False\<rparr>, queue = []\<rparr>"

definition post50 :: content where
  "post50 = \<lparr>content_text = Some (replicate 50 CHR ''x''), content_image = None, content_meta = None\<rparr>"

definition post_ok :: "share_payload \<Rightarrow> http_outcome" where
  "post_ok p = HttpResponse (Some ''urn:li:share:1'') None"

definition env1 :: env where
  "env1 = \<lparr>now_ms = 1700000000000, now_iso = ''2023-11-14T22:13:20.000Z'',
     now_iso_later = ''2023-11-14T22:13:20.001Z'', random36 = ''0.k3j9x2m1q59'', post = post_ok\<rparr>"

definition env2 :: env where
  "env2 = \<lparr>now_ms = 1700000000000, now_iso = ''2023-11-14T22:13:20.000Z'',
     now_iso_later = ''2023-11-14T22:13:20.000Z'', random36 = ''0.k3j9x2m1q6'', post = post_ok\<rparr>"

definition env3 :: env where
  "env3 = \<lparr>now_ms = 1700000000001, now_iso = ''2023-11-14T22:13:20.001Z'',
     now_iso_later = ''2023-11-14T22:13:20.001Z'', random36 = ''0.k3j9x2m1q6'', post = post_ok\<rparr>"

definition post_other :: content where
  "post_other = \<lparr>content_text = Some ''Another post'', content_image = None, content_meta = None\<rparr>"

definition empty_post :: content where
  "empty_post = \<lparr>content_text = Some [], content_image = None, content_meta = None\<rparr>"

definition qid1 :: string where
  "qid1 = queue_item_id (now_ms env1) (random36 env1)"

definition pending_state :: publisher where
  "pending_state = snd (queuePost queue_only env1 post50)"

definition auto_publisher :: publisher where
  "auto_publisher = \<lparr>cfg = \<lparr>apiBaseUrl = ''https://api.linkedin.com/v2'', accessToken = Some ''token'',
     personUrn = Some ''urn:li:person:1'', autoPublish = True\<rparr>, queue = []\<rparr>"

definition auto_pending_state :: publisher where
  "auto_pending_state = snd (queuePost auto_publisher env1 post50)"

definition post_unauthorized :: "share_payload \<Rightarrow> http_outcome" where
  "post_unauthorized p = HttpError (Some 401) ''Request failed with status code 401''"

definition env_unauthorized :: env where
  "env_unauthorized = \<lparr>now_ms = 1700000000500, now_iso = ''2023-11-14T22:13:20.500Z'',
     now_iso_later = ''2023-11-14T22:13:20.500Z'', random36 = ''0.weeeeeeeee9'', post = post_unauthorized\<rparr>"

text \<open>
  \<open>built_prompt\<close> has the fields that \<open>PromptBuilder.buildPrompt\<close> produces;
  \<open>builder_prompt\<close> has them and a \<open>context\<close> object, which \<open>_validatePrompt\<close> requires;
  \<open>topic_prompt\<close> carries the \<open>metadata.topic\<close> that \<open>_generateFallback\<close> reads.
\<close>

definition builder_prompt :: jsval where
  "builder_prompt = JObj
     [(''metadata'', JObj [(''signalId'', JStr ''commit:abc''), (''timestamp'', JStr ''2024-01-01T00:00:00.000Z''),
         (''category'', JStr ''code''), (''confidence'', JNum 0.8)]),
      (''system'', JObj [(''role'', JStr ''You are a professional LinkedIn content creator specializing in technical topics.''),
         (''guidelines'', JArr [JStr ''Maintain authenticity and credibility''])]),
      (''instructions'', JObj [(''topic'', JStr ''Queue support''), (''context'', JStr ''A manual-review queue was added''),
         (''signalType'', JStr ''commit''), (''category'', JStr ''code''), (''sources'', JArr []),
         (''confidence'', JNum 0.8)]),
      (''context'', JObj [(''summary'', JStr ''A manual-review queue was added'')]),
      (''constraints'', JObj [(''format'', JStr ''LinkedIn professional post'')]),
      (''attribution'', JNull)]"

definition built_prompt :: jsval where
  "built_prompt = JObj
     [(''metadata'', JObj [(''signalId'', JStr ''commit:abc''), (''timestamp'', JStr ''2024-01-01T00:00:00.000Z''),
         (''category'', JStr ''code''), (''confidence'', JNum 0.8)]),
      (''system'', JObj [(''role'', JStr ''You are a professional LinkedIn content creator specializing in technical topics.''),
         (''guidelines'', JArr [JStr ''Maintain authenticity and credibility''])]),
      (''instructions'', JObj [(''topic'', JStr ''Queue support''), (''context'', JStr ''A manual-review queue was added''),
         (''signalType'', JStr ''commit''), (''category'', JStr ''code''), (''sources'', JArr []),
         (''confidence'', JNum 0.8)]),
      (''constraints'', JObj [(''format'', JStr ''LinkedIn professional post'')]),
      (''attribution'', JNull)]"

definition topic_prompt :: jsval where
  "topic_prompt = JObj
     [(''metadata'', JObj [(''topic'', JStr ''Queue support'')]),
      (''system'', JStr ''You write LinkedIn posts''),
      (''instructions'', JObj [(''task'', JStr ''Write a post'')]),
      (''context'', JObj [(''summary'', JStr ''A manual-review queue was added'')]),
      (''constraints'', JObj [(''format'', JStr ''LinkedIn professional post'')])]"

definition generator_with_token :: generator where
  "generator_with_token = \<lparr>hfToken = Some ''hf_token'', lastCallTime = 0\<rparr>"

definition env_unavailable :: gen_env where
  "env_unavailable = \<lparr>clock_after_wait = 1700000000000, iso_result = ''2023-11-14T22:13:20.000Z'',
     iso_validated = ''2023-11-14T22:13:20.001Z'', hf = HfThrows (Some 503)\<rparr>"

section \<open>Verified properties\<close>

subsection \<open>The logger binding of the state store\<close>

lemma store_log_raises: "store_log = Inl TypeError"
  by (simp add: store_log_def store_logger_def logger_exports_def log_with_def)


lemma load_parsed_only:
  "load NoFile = Inl TypeError \<and> load Unparsable = Inl TypeError \<and> load (Parsed st) = Inr st"
  by (simp add: load_def store_log_raises)




subsection \<open>The execution audit trail\<close>









subsection \<open>Text sanitization\<close>

lemma is_space_blank [simp]: "is_space CHR '' ''" by (simp add: is_space_def)
lemma is_space_dot [simp]: "\<not> is_space CHR ''.''" by (simp add: is_space_def)

lemma collapse_ws_hd:
  "s \<noteq> [] \<Longrightarrow> \<not> is_space (hd s) \<Longrightarrow> collapse_ws s \<noteq> [] \<and> hd (collapse_ws s) = hd s"
  by (cases s) auto

lemma spaced_collapse_ws: "spaced (collapse_ws s)"
proof (induction s rule: collapse_ws.induct)
  case 1
  then show ?case by simp
next
  case (2 c cs)
  show ?case
  proof (cases "is_space c")
    case True
    let ?t = "dropWhile is_space cs"
    have "collapse_ws ?t = [] \<or> \<not> is_space (hd (collapse_ws ?t))"
    proof (cases "?t = []")
      case True then show ?thesis by (simp only: collapse_ws.simps simp_thms)
    next
      case False
      then have "\<not> is_space (hd ?t)" by (rule hd_dropWhile)
      with False show ?thesis using collapse_ws_hd [of ?t] by simp
    qed
    with True 2 show ?thesis by simp
  next
    case False
    with 2 show ?thesis by simp
  qed
qed

lemma collapse_ws_spaced: "spaced s \<Longrightarrow> collapse_ws s = s"
proof (induction s rule: collapse_ws.induct)
  case 1
  then show ?case by simp
next
  case (2 c cs)
  show ?case
  proof (cases "is_space c")
    case True
    with "2.prems" have c: "c = CHR '' ''" and h: "cs = [] \<or> \<not> is_space (hd cs)" and s: "spaced cs"
      by auto
    from h have "dropWhile is_space cs = cs" by (cases cs) auto
    with True c s 2 show ?thesis by simp
  next
    case False
    with 2 show ?thesis by simp
  qed
qed

lemma spaced_append_left: "spaced (p @ q) \<Longrightarrow> spaced p"
  by (induction p) (auto split: if_splits)

lemma spaced_append_right: "spaced (p @ q) \<Longrightarrow> spaced q"
  by (induction p) (auto split: if_splits)

lemma spaced_append_word:
  "spaced p \<Longrightarrow> spaced q \<Longrightarrow> q \<noteq> [] \<Longrightarrow> \<not> is_space (hd q) \<Longrightarrow> spaced (p @ q)"
  by (induction p) (auto simp: hd_append split: if_splits)

lemma rstrip_split: "s = rev (dropWhile P (rev s)) @ rev (takeWhile P (rev s))"
proof -
  have "rev (dropWhile P (rev s)) @ rev (takeWhile P (rev s)) =
        rev (takeWhile P (rev s) @ dropWhile P (rev s))"
    by (simp only: rev_append)
  also have "\<dots> = s" by (simp only: takeWhile_dropWhile_id rev_rev_ident)
  finally show ?thesis by (rule sym)
qed

lemma lstrip_split: "s = takeWhile P s @ dropWhile P s"
  by simp

lemma spaced_trim: "spaced s \<Longrightarrow> spaced (trim s)"
proof -
  assume s: "spaced s"
  have "spaced (dropWhile is_space s)"
    using s lstrip_split [of s is_space] spaced_append_right by metis
  then show ?thesis
    unfolding trim_def
    using rstrip_split [of "dropWhile is_space s" is_space] spaced_append_left by metis
qed

lemma edges_ok_trim: "edges_ok (trim s)"
proof (cases "trim s = []")
  case True
  then show ?thesis by (simp add: edges_ok_def)
next
  case False
  let ?l = "dropWhile is_space s"
  let ?r = "dropWhile is_space (rev ?l)"
  from False have r: "?r \<noteq> []" by (simp add: trim_def)
  then have last_ok: "\<not> is_space (last (trim s))"
    using hd_dropWhile [of is_space "rev ?l"] by (simp add: trim_def last_rev)
  have l: "?l \<noteq> []"
  proof
    assume "?l = []"
    with r show False by simp
  qed
  have "?l = trim s @ rev (takeWhile is_space (rev ?l))"
    unfolding trim_def by (rule rstrip_split)
  with False have "hd ?l = hd (trim s)" by (metis hd_append2)
  moreover from l have "\<not> is_space (hd ?l)" by (rule hd_dropWhile)
  ultimately show ?thesis using last_ok by (simp add: edges_ok_def)
qed

lemma trim_edges_ok: "edges_ok s \<Longrightarrow> trim s = s"
proof (cases "s = []")
  case True
  then show ?thesis by (simp add: trim_def)
next
  case False
  assume "edges_ok s"
  with False have h: "\<not> is_space (hd s)" and l: "\<not> is_space (last s)"
    by (auto simp: edges_ok_def)
  from False h have 1: "dropWhile is_space s = s" by (cases s) auto
  from False l have "dropWhile is_space (rev s) = rev s"
    by (cases "rev s") (auto simp: last_rev hd_rev)
  with 1 show ?thesis by (simp add: trim_def)
qed

lemma clean_fixed: "spaced s \<Longrightarrow> edges_ok s \<Longrightarrow> trim (collapse_ws s) = s"
  by (simp add: collapse_ws_spaced trim_edges_ok)

lemma spaced_clean: "spaced (trim (collapse_ws s))"
  by (simp add: spaced_trim spaced_collapse_ws)

lemma truncated_fixed:
  "trim (collapse_ws (take k (trim (collapse_ws s)) @ ''...'')) = take k (trim (collapse_ws s)) @ ''...''"
proof -
  let ?c = "trim (collapse_ws s)"
  have "spaced (take k ?c)"
    using spaced_clean [of s] spaced_append_left [of "take k ?c" "drop k ?c"] by simp
  then have sp: "spaced (take k ?c @ ''...'')"
    by (rule spaced_append_word) simp_all
  have "edges_ok (take k ?c @ ''...'')"
  proof (cases "take k ?c = []")
    case True
    then have "take k ?c @ ''...'' = ''...''" by (simp only: append_Nil)
    moreover have "edges_ok ''...''" by (simp add: edges_ok_def)
    ultimately show ?thesis by (simp only:)
  next
    case False
    then have "?c \<noteq> []" and "0 < k" by auto
    then have "hd (take k ?c) = hd ?c" by (cases ?c; cases k) auto
    moreover have "\<not> is_space (hd ?c)" using edges_ok_trim [of "collapse_ws s"] \<open>?c \<noteq> []\<close>
      by (simp add: edges_ok_def)
    ultimately show ?thesis using False by (simp add: edges_ok_def)
  qed
  with sp show ?thesis by (rule clean_fixed)
qed

text \<open>
  C7. Sanitization is idempotent: for every string and every cap, sanitizing the result of
  \<open>sanitizeText\<close> again with the same cap gives the same string.
\<close>

theorem sanitize_idem: "sanitizeText (sanitizeText x maxLength) maxLength = sanitizeText x maxLength"
proof (cases "x = []")
  case True
  then show ?thesis by (simp add: sanitizeText_def)
next
  case False
  let ?c = "trim (collapse_ws x)"
  have fixc: "trim (collapse_ws ?c) = ?c"
    by (rule clean_fixed) (simp_all add: spaced_clean edges_ok_trim)
  show ?thesis
  proof (cases "int (length ?c) > maxLength")
    case short: False
    with False have out: "sanitizeText x maxLength = ?c" by (simp add: sanitizeText_def Let_def)
    show ?thesis unfolding out using short fixc by (simp add: sanitizeText_def Let_def)
  next
    case long: True
    let ?o = "take (nat (maxLength - 3)) ?c @ ''...''"
    from False long have out: "sanitizeText x maxLength = ?o"
      by (simp add: sanitizeText_def Let_def substring0_def)
    have fixo: "trim (collapse_ws ?o) = ?o" by (rule truncated_fixed)
    show ?thesis
    proof (cases "3 \<le> maxLength")
      case True
      with long have "int (length ?o) = maxLength" by auto
      then show ?thesis unfolding out using fixo by (simp add: sanitizeText_def Let_def)
    next
      case False
      then have "nat (maxLength - 3) = 0" by simp
      then have o: "?o = ''...''" by simp
      show ?thesis unfolding out o using False fixo [unfolded o]
        by (simp add: sanitizeText_def Let_def substring0_def)
    qed
  qed
qed


theorem sanitize_idem_witness:
  "sanitizeText (sanitizeText ''  hello   world  '' 8) 8 = ''hello...'' \<and>
   sanitizeText (sanitizeText ''abcd'' 2) 2 = ''...''"
  using sanitize_idem [of "''  hello   world  ''" 8] sanitize_idem [of "''abcd''" 2]
  by (simp add: sanitizeText_def trim_def is_space_def substring0_def)

lemma spaced_no_space: "\<forall>c\<in>set s. \<not> is_space c \<Longrightarrow> spaced s"
  by (induction s) auto

lemma clean_no_space:
  assumes "\<forall>c\<in>set s. \<not> is_space c"
  shows "trim (collapse_ws s) = s"
proof (rule clean_fixed)
  show "spaced s" using assms by (rule spaced_no_space)
  show "edges_ok s" using assms by (cases s) (auto simp: edges_ok_def)
qed

lemma sanitize_long:
  assumes "3 \<le> maxLength" and "maxLength < int (length (trim (collapse_ws str)))"
  shows "sanitizeText str maxLength = take (nat (maxLength - 3)) (trim (collapse_ws str)) @ ''...''"
proof -
  from assms have "str \<noteq> []" by (auto simp: trim_def)
  with assms show ?thesis by (simp add: sanitizeText_def Let_def substring0_def)
qed

lemma sanitize_long_length:
  assumes "3 \<le> maxLength" and "maxLength < int (length (trim (collapse_ws str)))"
  shows "int (length (sanitizeText str maxLength)) = maxLength"
  using assms unfolding sanitize_long [OF assms] by auto

lemma sanitize_long_ellipsis:
  assumes "3 \<le> maxLength" and "maxLength < int (length (trim (collapse_ws str)))"
  shows "drop (length (sanitizeText str maxLength) - 3) (sanitizeText str maxLength) = ''...''"
  unfolding sanitize_long [OF assms] by simp

lemma sanitize_short:
  assumes "int (length (trim (collapse_ws str))) \<le> maxLength"
  shows "sanitizeText str maxLength = trim (collapse_ws str)"
  using assms by (cases "str = []") (simp_all add: sanitizeText_def Let_def trim_def)

text \<open>
  C6, as amended. For a cap of at least 3: a string whose collapsed and trimmed form is
  longer than the cap is cut to exactly the cap, the last three characters being the
  ellipsis. For every cap: a string whose collapsed and trimmed form fits the cap is
  returned collapsed and trimmed. A context of 600 characters without white space,
  sanitized with the cap 500, has 500 characters and ends with the ellipsis.
\<close>

theorem sanitize_truncation:
  "(3 \<le> maxLength \<and> maxLength < int (length (trim (collapse_ws str))) \<longrightarrow>
      int (length (sanitizeText str maxLength)) = maxLength \<and>
      drop (length (sanitizeText str maxLength) - 3) (sanitizeText str maxLength) = ''...'') \<and>
   (int (length (trim (collapse_ws str))) \<le> maxLength \<longrightarrow>
      sanitizeText str maxLength = trim (collapse_ws str)) \<and>
   (length ctx = 600 \<and> (\<forall>c\<in>set ctx. \<not> is_space c) \<longrightarrow>
      length (sanitizeText ctx maxContextLength) = 500 \<and>
      drop 497 (sanitizeText ctx maxContextLength) = ''...'')"
proof (intro conjI impI)
  assume a: "3 \<le> maxLength \<and> maxLength < int (length (trim (collapse_ws str)))"
  then show "int (length (sanitizeText str maxLength)) = maxLength"
    using sanitize_long_length [of maxLength str] by blast
  from a show "drop (length (sanitizeText str maxLength) - 3) (sanitizeText str maxLength) = ''...''"
    using sanitize_long_ellipsis [of maxLength str] by blast
next
  assume "int (length (trim (collapse_ws str))) \<le> maxLength"
  then show "sanitizeText str maxLength = trim (collapse_ws str)" by (rule sanitize_short)
next
  assume a: "length ctx = 600 \<and> (\<forall>c\<in>set ctx. \<not> is_space c)"
  then have c: "trim (collapse_ws ctx) = ctx" by (simp add: clean_no_space)
  with a have l: "int (length (sanitizeText ctx 500)) = 500"
    by (intro sanitize_long_length) simp_all
  then show "length (sanitizeText ctx maxContextLength) = 500" by (simp add: maxContextLength_def)
  from a c have "drop (length (sanitizeText ctx 500) - 3) (sanitizeText ctx 500) = ''...''"
    by (intro sanitize_long_ellipsis) simp_all
  with l show "drop 497 (sanitizeText ctx maxContextLength) = ''...''"
    by (simp add: maxContextLength_def)
qed

theorem sanitize_truncation_witness:
  "(3::int) \<le> 8 \<and> 8 < int (length (trim (collapse_ws ''  hello   world  ''))) \<and>
   sanitizeText ''  hello   world  '' 8 = ''hello...'' \<and>
   int (length (trim (collapse_ws ''  hello   world  ''))) \<le> 100 \<and>
   sanitizeText ''  hello   world  '' 100 = ''hello world'' \<and>
   length (replicate 600 CHR ''a'') = 600 \<and>
   length (sanitizeText (replicate 600 CHR ''a'') maxContextLength) = 500 \<and>
   drop 497 (sanitizeText (replicate 600 CHR ''a'') maxContextLength) = ''...''"
  using sanitize_truncation [of 8 "''  hello   world  ''" "replicate 600 CHR ''a''"]
    sanitize_truncation [of 100 "''  hello   world  ''" "[]"]
  by (simp add: sanitizeText_def trim_def is_space_def substring0_def)

text \<open>
  With a cap below 3 the ellipsis alone is longer than the cap: the collapsed form of
  \<open>abcd\<close> is longer than 2, and the result has three characters.
\<close>

theorem sanitize_small_cap_counterexample:
  "2 < int (length (trim (collapse_ws ''abcd''))) \<and>
   sanitizeText ''abcd'' 2 = ''...'' \<and>
   int (length (sanitizeText ''abcd'' 2)) \<noteq> 2"
  by (simp add: sanitizeText_def trim_def is_space_def substring0_def)

subsection \<open>The ledger and signal detection\<close>









subsection \<open>Classification\<close>

lemma clamp_confidence_bounds: "0.3 \<le> clamp_confidence x \<and> clamp_confidence x \<le> 1"
  by (auto simp: clamp_confidence_def max_def min_def)

lemma classifyCommit_bounds:
  assumes "classifyCommit s = Inr c"
  shows "0.3 \<le> confidence c \<and> confidence c \<le> 1"
proof -
  from assms obtain x where "confidence c = clamp_confidence x"
    by (auto simp: classifyCommit_def classified_of_def Let_def
        split: signal_data.splits prod.splits)
  then show ?thesis by (simp only: clamp_confidence_bounds)
qed

lemma classifyIssue_bounds:
  assumes "classifyIssue s = Inr c"
  shows "0.3 \<le> confidence c \<and> confidence c \<le> 1"
proof -
  from assms obtain x where "confidence c = clamp_confidence x"
    by (auto simp: classifyIssue_def classified_of_def Let_def
        split: signal_data.splits prod.splits)
  then show ?thesis by (simp only: clamp_confidence_bounds)
qed

lemma classify_returns: "data_fits_type s \<Longrightarrow> \<exists>c. classify s = Inr c"
  by (auto simp: data_fits_type_def classify_def classifyCommit_def classifyIssue_def Let_def
      split: signal_data.splits prod.splits if_splits)

text \<open>
  C3, as amended. For a signal with a confidence in \<open>[0, 1]\<close> whose data has the shape its
  type needs, \<open>classify\<close> returns a classified signal; for a commit or an issue its
  confidence is in \<open>[0.3, 1.0]\<close>; for a README update it is at least the signal's
  confidence and at most \<open>1.0\<close>; for any other type it is the signal's confidence,
  unchanged, and the category is \<open>unknown\<close>.
\<close>

theorem classify_confidence:
  assumes "0 \<le> confidence s" and "confidence s \<le> 1" and "data_fits_type s"
  shows "\<exists>c. classify s = Inr c \<and>
           (sig_type s = ''commit'' \<or> sig_type s = ''issue'' \<longrightarrow>
              0.3 \<le> confidence c \<and> confidence c \<le> 1) \<and>
           (sig_type s = ''readme_update'' \<longrightarrow>
              confidence s \<le> confidence c \<and> confidence c \<le> 1) \<and>
           (sig_type s \<noteq> ''commit'' \<and> sig_type s \<noteq> ''readme_update'' \<and> sig_type s \<noteq> ''issue'' \<longrightarrow>
              confidence c = confidence s \<and> category c = ''unknown'')"
proof -
  from assms(3) obtain c where c: "classify s = Inr c" using classify_returns by blast
  have "sig_type s = ''commit'' \<or> sig_type s = ''issue'' \<longrightarrow> 0.3 \<le> confidence c \<and> confidence c \<le> 1"
    using c classifyCommit_bounds [of s c] classifyIssue_bounds [of s c]
    by (auto simp: classify_def)
  moreover have "sig_type s = ''readme_update'' \<longrightarrow> confidence s \<le> confidence c \<and> confidence c \<le> 1"
    using c assms(1,2) by (auto simp: classify_def classifyReadme_def classified_of_def)
  moreover have "sig_type s \<noteq> ''commit'' \<and> sig_type s \<noteq> ''readme_update'' \<and> sig_type s \<noteq> ''issue'' \<longrightarrow>
              confidence c = confidence s \<and> category c = ''unknown''"
    using c by (auto simp: classify_def classified_of_def)
  ultimately show ?thesis using c by blast
qed

theorem classify_confidence_witness:
  "0 \<le> confidence issue_signal \<and> confidence issue_signal \<le> 1 \<and> data_fits_type issue_signal \<and>
   result_confidence (classify issue_signal) = Some 0.65 \<and>
   result_category (classify issue_signal) = Some ''code'' \<and>
   0 \<le> confidence readme_signal \<and> confidence readme_signal \<le> 1 \<and> data_fits_type readme_signal \<and>
   result_confidence (classify readme_signal) = Some 0.9 \<and>
   0 \<le> confidence release_signal \<and> confidence release_signal \<le> 1 \<and> data_fits_type release_signal \<and>
   result_confidence (classify release_signal) = Some 0.1"
  using classify_confidence [of issue_signal] classify_confidence [of readme_signal]
    classify_confidence [of release_signal]
  by (simp add: issue_signal_def readme_signal_def release_signal_def data_fits_type_def
      classify_def classifyIssue_def classifyReadme_def issue_label_rule_def classified_of_def
      clamp_confidence_def result_confidence_def result_category_def)

text \<open>
  A signal of a type that \<open>classify\<close> does not know keeps its confidence: \<open>0.1\<close> stays
  \<open>0.1\<close>, below the floor. A README update with confidence \<open>0.1\<close> is raised to \<open>0.2\<close>
  only, as \<open>classifyReadme\<close> applies the ceiling and no floor.
\<close>

theorem classify_floor_counterexample:
  "0 \<le> confidence release_signal \<and> confidence release_signal \<le> 1 \<and>
   result_confidence (classify release_signal) = Some 0.1 \<and>
   \<not> confidence_in_range (classify release_signal)"
  by (simp add: release_signal_def classify_def classified_of_def result_confidence_def
      confidence_in_range_def)

lemma classify_low_readme:
  "result_confidence (classify low_readme_signal) = Some 0.2 \<and>
   \<not> confidence_in_range (classify low_readme_signal)"
  by (simp add: low_readme_signal_def classify_def classifyReadme_def classified_of_def
      result_confidence_def confidence_in_range_def)

subsection \<open>The publish queue\<close>

lemma digit_char_digit: "d < 10 \<Longrightarrow> of_char (digit_char d) = 48 + d"
proof -
  assume "d < 10"
  then have "d \<in> {0, 1, 2, 3, 4, 5, 6, 7, 8, 9}" by auto
  then show ?thesis by (auto simp: digit_char_def)
qed

lemma read_nat_snoc: "read_nat (s @ [c]) = 10 * read_nat s + (of_char c - 48)"
  by (simp add: read_nat_def)

lemma read_show_nat: "read_nat (show_nat n) = n"
proof (induction n rule: show_nat.induct)
  case (1 n)
  show ?case
  proof (cases "n < 10")
    case True
    then show ?thesis
      by (simp add: show_nat.simps [of n] read_nat_def digit_char_digit)
  next
    case False
    with 1 have "read_nat (show_nat (n div 10)) = n div 10" by simp
    with False show ?thesis
      by (simp add: show_nat.simps [of n] read_nat_snoc digit_char_digit)
  qed
qed

lemma show_nat_inj: "show_nat a = show_nat b \<Longrightarrow> a = b"
  by (metis read_show_nat)

lemma show_nat_no_underscore: "CHR ''_'' \<notin> set (show_nat n)"
proof (induction n rule: show_nat.induct)
  case (1 n)
  have d: "\<And>d. d < 10 \<Longrightarrow> digit_char d \<noteq> CHR ''_''"
  proof -
    fix d :: nat assume "d < 10"
    then have "d \<in> {0, 1, 2, 3, 4, 5, 6, 7, 8, 9}" by auto
    then show "digit_char d \<noteq> CHR ''_''" by (auto simp: digit_char_def)
  qed
  show ?case
  proof (cases "n < 10")
    case True
    then show ?thesis using d [of n] by (simp add: show_nat.simps [of n])
  next
    case False
    with 1 have "CHR ''_'' \<notin> set (show_nat (n div 10))" by simp
    with False show ?thesis using d [of "n mod 10"] by (simp add: show_nat.simps [of n])
  qed
qed

lemma split_at_first:
  "c \<notin> set xs \<Longrightarrow> c \<notin> set xs' \<Longrightarrow> xs @ c # ys = xs' @ c # ys' \<Longrightarrow> xs = xs' \<and> ys = ys'"
proof (induction xs arbitrary: xs')
  case Nil
  then show ?case by (cases xs') auto
next
  case (Cons x xs)
  then show ?case by (cases xs') auto
qed

lemma queue_item_id_eq_iff:
  "queue_item_id ms rnd = queue_item_id ms' rnd' \<longleftrightarrow> ms = ms' \<and> substr rnd 2 9 = substr rnd' 2 9"
proof
  assume "queue_item_id ms rnd = queue_item_id ms' rnd'"
  then have "show_nat ms @ CHR ''_'' # substr rnd 2 9 = show_nat ms' @ CHR ''_'' # substr rnd' 2 9"
    by (simp add: queue_item_id_def)
  then have "show_nat ms = show_nat ms' \<and> substr rnd 2 9 = substr rnd' 2 9"
    by (rule split_at_first [OF show_nat_no_underscore show_nat_no_underscore])
  then show "ms = ms' \<and> substr rnd 2 9 = substr rnd' 2 9" by (auto dest: show_nat_inj)
next
  assume "ms = ms' \<and> substr rnd 2 9 = substr rnd' 2 9"
  then show "queue_item_id ms rnd = queue_item_id ms' rnd'" by (simp add: queue_item_id_def)
qed

lemma fst_queuePost: "fst (queuePost st e c) = Queued (queue_item_id (now_ms e) (random36 e))"
  by (simp add: queuePost_def new_queue_item_def)

lemma queue_queuePost: "queue (snd (queuePost st e c)) = queue st @ [new_queue_item e c]"
  by (simp add: queuePost_def Let_def)

lemma cfg_queuePost: "cfg (snd (queuePost st e c)) = cfg st"
  by (simp add: queuePost_def Let_def)

text \<open>
  C9, as amended. The id that \<open>_queuePost\<close> generates is \<open>queue_\<close>, the clock in
  milliseconds, an underscore and up to nine characters of the random number in base 36
  (those that \<open>substr(2, 9)\<close> keeps). The ids
  of two calls differ exactly when their clock readings differ or their random suffixes
  differ; nothing in the code excludes that both coincide.
\<close>

theorem queue_id_distinct:
  "fst (queuePost st e c) = Queued (queue_item_id (now_ms e) (random36 e)) \<and>
   map item_id (queue (snd (queuePost (snd (queuePost st e c)) e' c'))) =
     map item_id (queue st) @
       [queue_item_id (now_ms e) (random36 e), queue_item_id (now_ms e') (random36 e')] \<and>
   (queue_item_id (now_ms e) (random36 e) \<noteq> queue_item_id (now_ms e') (random36 e') \<longleftrightarrow>
      now_ms e \<noteq> now_ms e' \<or> substr (random36 e) 2 9 \<noteq> substr (random36 e') 2 9)"
  by (simp add: fst_queuePost queue_queuePost queue_item_id_eq_iff new_queue_item_def)

theorem queue_id_distinct_witness:
  "now_ms env1 \<noteq> now_ms env3 \<and>
   queue_item_id (now_ms env1) (random36 env1) \<noteq> queue_item_id (now_ms env3) (random36 env3) \<and>
   map item_id (queue (snd (queuePost (snd (queuePost queue_only env1 post50)) env3 post_other))) =
     [''queue_1700000000000_k3j9x2m1q'', ''queue_1700000000001_k3j9x2m1q'']"
  using queue_id_distinct [of queue_only env1 post50 env3 post_other]
  by (simp add: env1_def env3_def queue_only_def queue_item_id_def substr_def show_nat.simps
      digit_char_def)

text \<open>
  Two successive \<open>_queuePost\<close> calls in the same millisecond, with two different random
  numbers (\<open>0.558283511637446\<close> and \<open>0.5582835116374463\<close>) whose base-36 renderings agree
  on the nine characters that the id keeps: both
  queue items get the same id.
\<close>

theorem queue_id_collision_counterexample:
  "random36 env1 \<noteq> random36 env2 \<and>
   fst (queuePost queue_only env1 post50) = Queued ''queue_1700000000000_k3j9x2m1q'' \<and>
   fst (queuePost (snd (queuePost queue_only env1 post50)) env2 post_other)
     = Queued ''queue_1700000000000_k3j9x2m1q'' \<and>
   map item_id (queue (snd (queuePost (snd (queuePost queue_only env1 post50)) env2 post_other))) =
     [''queue_1700000000000_k3j9x2m1q'', ''queue_1700000000000_k3j9x2m1q'']"
  by (simp add: env1_def env2_def queue_only_def queuePost_def new_queue_item_def
      queue_item_id_def substr_def show_nat.simps digit_char_def)

lemma find_update_first:
  assumes "find (\<lambda>i. item_id i = q) xs = Some item" and "item_id (f item) = q"
  shows "find (\<lambda>i. item_id i = q) (update_first q f xs) = Some (f item)"
  using assms by (induction xs) (auto split: if_splits)

lemma item_id_mark_published: "item_id (mark_published e r item) = item_id item"
  by (simp add: mark_published_def)

lemma find_item_id: "find_item st q = Some item \<Longrightarrow> item_id item = q"
  by (auto simp: find_item_def find_Some_iff)

lemma attemptAutoPublish_response:
  assumes "accessToken cf = Some token" and "personUrn cf = Some urn"
    and "post e (build_share_payload urn c) = HttpResponse d h"
  shows "attemptAutoPublish cf e c =
     Inr \<lparr>pub_postId = (case d of Some i \<Rightarrow> Some i | None \<Rightarrow> h), pub_publishedAt = now_iso e,
          pub_url = ''https://www.linkedin.com/feed/update/''
            @ (case (case d of Some i \<Rightarrow> Some i | None \<Rightarrow> h) of None \<Rightarrow> ''undefined'' | Some p \<Rightarrow> p) @ ''/''\<rparr>"
  using assms by (simp add: attemptAutoPublish_def Let_def)

lemma publishFromQueue_success:
  assumes "find_item st qid = Some item" and "item_status item = ''pending''"
    and "attemptAutoPublish (cfg st) e (item_content item) = Inr r"
  shows "publishFromQueue st e qid =
           (Inr r, st\<lparr>queue := update_first qid (mark_published e r) (queue st)\<rparr>)"
    and "find_item (st\<lparr>queue := update_first qid (mark_published e r) (queue st)\<rparr>) qid
           = Some (mark_published e r item)"
proof -
  show "publishFromQueue st e qid =
           (Inr r, st\<lparr>queue := update_first qid (mark_published e r) (queue st)\<rparr>)"
    using assms by (simp add: publishFromQueue_def)
  have "item_id item = qid" using assms(1) by (rule find_item_id)
  then show "find_item (st\<lparr>queue := update_first qid (mark_published e r) (queue st)\<rparr>) qid
           = Some (mark_published e r item)"
    using assms(1) find_update_first [of qid "queue st" item "mark_published e r"]
    by (simp add: find_item_def item_id_mark_published)
qed

lemma publishFromQueue_not_pending:
  assumes "find_item st qid = Some item" and "item_status item \<noteq> ''pending''"
  shows "publishFromQueue st e qid = (Inl (QueueItemAlreadyProcessed qid), st)"
  using assms by (simp add: publishFromQueue_def)

text \<open>
  C4, as amended. Every item created by \<open>_queuePost\<close> has status \<open>pending\<close>. For a
  pending item, when the credentials are configured and the publish call returns a
  response, \<open>publishFromQueue(id)\<close> returns the result and the item is \<open>published\<close>;
  calling \<open>publishFromQueue\<close> again with the same id, in any circumstances, raises
  \<open>already processed\<close> and changes nothing.
\<close>

theorem queue_lifecycle:
  assumes "find_item st qid = Some item" and "item_status item = ''pending''"
    and "accessToken (cfg st) = Some token" and "personUrn (cfg st) = Some urn"
    and "post e (build_share_payload urn (item_content item)) = HttpResponse d h"
  shows "item_status (new_queue_item e0 c) = ''pending'' \<and>
         queue (snd (queuePost st0 e0 c)) = queue st0 @ [new_queue_item e0 c] \<and>
         (\<exists>r st'. publishFromQueue st e qid = (Inr r, st') \<and>
            find_item st' qid = Some (mark_published e r item) \<and>
            item_status (mark_published e r item) = ''published'' \<and>
            publishFromQueue st' e' qid = (Inl (QueueItemAlreadyProcessed qid), st'))"
proof -
  from assms(3-5) obtain r where r: "attemptAutoPublish (cfg st) e (item_content item) = Inr r"
    using attemptAutoPublish_response by blast
  let ?st' = "st\<lparr>queue := update_first qid (mark_published e r) (queue st)\<rparr>"
  have 1: "publishFromQueue st e qid = (Inr r, ?st')"
    using assms(1,2) r by (rule publishFromQueue_success(1))
  have 2: "find_item ?st' qid = Some (mark_published e r item)"
    using assms(1,2) r by (rule publishFromQueue_success(2))
  have 3: "item_status (mark_published e r item) = ''published''"
    by (simp add: mark_published_def)
  have 4: "publishFromQueue ?st' e' qid = (Inl (QueueItemAlreadyProcessed qid), ?st')"
    using 2 by (rule publishFromQueue_not_pending) (simp add: 3)
  have 5: "item_status (new_queue_item e0 c) = ''pending''"
    by (simp add: new_queue_item_def)
  from 1 2 3 4 5 show ?thesis by (simp add: queue_queuePost)
qed

theorem queue_lifecycle_witness:
  "find_item auto_pending_state qid1 = Some (new_queue_item env1 post50) \<and>
   item_status (new_queue_item env1 post50) = ''pending'' \<and>
   accessToken (cfg auto_pending_state) = Some ''token'' \<and>
   personUrn (cfg auto_pending_state) = Some ''urn:li:person:1'' \<and>
   post env3 (build_share_payload ''urn:li:person:1'' (item_content (new_queue_item env1 post50)))
     = HttpResponse (Some ''urn:li:share:1'') None \<and>
   map item_status (queue (snd (publishFromQueue auto_pending_state env3 qid1))) = [''published''] \<and>
   fst (publishFromQueue (snd (publishFromQueue auto_pending_state env3 qid1)) env_unauthorized qid1)
     = Inl (QueueItemAlreadyProcessed qid1)"
  using queue_lifecycle [of auto_pending_state qid1 "new_queue_item env1 post50" "''token''"
      "''urn:li:person:1''" env3 "Some ''urn:li:share:1''" None env1 post50 auto_publisher env_unauthorized]
  by (simp add: auto_pending_state_def auto_publisher_def qid1_def queuePost_def find_item_def
      new_queue_item_def env3_def post_ok_def mark_published_def publishFromQueue_def
      attemptAutoPublish_def Let_def)

text \<open>
  A pending item of a publisher without credentials (the reason why it was queued):
  \<open>publishFromQueue\<close> raises \<open>LinkedIn credentials not configured\<close> and the item stays
  \<open>pending\<close>.
\<close>

theorem queue_lifecycle_counterexample:
  "find_item pending_state qid1 = Some (new_queue_item env1 post50) \<and>
   item_status (new_queue_item env1 post50) = ''pending'' \<and>
   publishFromQueue pending_state env1 qid1 = (Inl CredentialsNotConfigured, pending_state) \<and>
   map item_status (queue (snd (publishFromQueue pending_state env1 qid1))) = [''pending'']"
  by (simp add: pending_state_def queue_only_def qid1_def queuePost_def find_item_def
      new_queue_item_def publishFromQueue_def attemptAutoPublish_def)

text \<open>
  C10. When the publish attempt inside \<open>publishFromQueue(id)\<close> throws, the call throws
  the same error and the publisher is unchanged: the item found under \<open>id\<close> is the same
  item, with status \<open>pending\<close> and without \<open>publishedAt\<close> or \<open>postId\<close>, so a later
  call finds it pending again.
\<close>

theorem publishFromQueue_error_atomic:
  assumes "find_item st qid = Some item" and "item_status item = ''pending''"
    and "attemptAutoPublish (cfg st) e (item_content item) = Inl err"
  shows "publishFromQueue st e qid = (Inl err, st) \<and>
         find_item (snd (publishFromQueue st e qid)) qid = Some item"
  using assms by (simp add: publishFromQueue_def)

theorem publishFromQueue_error_atomic_witness:
  "find_item auto_pending_state qid1 = Some (new_queue_item env1 post50) \<and>
   item_status (new_queue_item env1 post50) = ''pending'' \<and>
   item_publishedAt (new_queue_item env1 post50) = None \<and>
   item_postId (new_queue_item env1 post50) = None \<and>
   attemptAutoPublish (cfg auto_pending_state) env_unauthorized (item_content (new_queue_item env1 post50))
     = Inl AuthenticationFailed \<and>
   publishFromQueue auto_pending_state env_unauthorized qid1 = (Inl AuthenticationFailed, auto_pending_state)"
  using publishFromQueue_error_atomic [of auto_pending_state qid1 "new_queue_item env1 post50"
      env_unauthorized AuthenticationFailed]
  by (simp add: auto_pending_state_def auto_publisher_def qid1_def queuePost_def find_item_def
      new_queue_item_def env_unauthorized_def post_unauthorized_def attemptAutoPublish_def)

lemma publish_failed_eq:
  "publish_failed st e c err =
     (FailedQueued err (Queued (item_id (new_queue_item e c))), st\<lparr>queue := queue st @ [new_queue_item e c]\<rparr>)"
  by (simp add: publish_failed_def queuePost_def Let_def)

lemma queue_item_id_nonempty: "queue_item_id ms rnd \<noteq> []"
  by (simp add: queue_item_id_def)

text \<open>
  C5, as amended. For a content that passes validation, when auto-publish is disabled or
  the access token is absent, \<open>publish\<close> returns status \<open>queued\<close> with the id of a new
  item and appends exactly that item to the queue. When validation fails, and when the
  publish attempt throws (missing person URN, authentication, permission or transport
  failure), \<open>publish\<close> returns status \<open>error\<close> with the error and the nested queue
  result, and appends the new item as well. The new item has a non-empty id, status
  \<open>pending\<close> and holds the content.
\<close>

theorem publish_degrades_to_queue:
  "(validateContent c \<and> (\<not> autoPublish (cfg st) \<or> accessToken (cfg st) = None) \<longrightarrow>
      publish st e c =
        (Queued (item_id (new_queue_item e c)), st\<lparr>queue := queue st @ [new_queue_item e c]\<rparr>)) \<and>
   (\<not> validateContent c \<longrightarrow>
      publish st e c =
        (FailedQueued InvalidContentStructure (Queued (item_id (new_queue_item e c))),
         st\<lparr>queue := queue st @ [new_queue_item e c]\<rparr>)) \<and>
   (validateContent c \<and> autoPublish (cfg st) \<and> accessToken (cfg st) \<noteq> None \<and>
    attemptAutoPublish (cfg st) e c = Inl err \<longrightarrow>
      publish st e c =
        (FailedQueued err (Queued (item_id (new_queue_item e c))),
         st\<lparr>queue := queue st @ [new_queue_item e c]\<rparr>)) \<and>
   item_id (new_queue_item e c) \<noteq> [] \<and>
   item_status (new_queue_item e c) = ''pending'' \<and>
   item_content (new_queue_item e c) = c"
proof (intro conjI impI)
  assume "validateContent c \<and> (\<not> autoPublish (cfg st) \<or> accessToken (cfg st) = None)"
  then show "publish st e c =
        (Queued (item_id (new_queue_item e c)), st\<lparr>queue := queue st @ [new_queue_item e c]\<rparr>)"
    by (auto simp: publish_def queuePost_def Let_def)
next
  assume "\<not> validateContent c"
  then show "publish st e c =
        (FailedQueued InvalidContentStructure (Queued (item_id (new_queue_item e c))),
         st\<lparr>queue := queue st @ [new_queue_item e c]\<rparr>)"
    by (simp add: publish_def publish_failed_eq)
next
  assume "validateContent c \<and> autoPublish (cfg st) \<and> accessToken (cfg st) \<noteq> None \<and>
    attemptAutoPublish (cfg st) e c = Inl err"
  then show "publish st e c =
        (FailedQueued err (Queued (item_id (new_queue_item e c))),
         st\<lparr>queue := queue st @ [new_queue_item e c]\<rparr>)"
    by (auto simp: publish_def publish_failed_eq)
next
  show "item_id (new_queue_item e c) \<noteq> []"
    by (simp add: new_queue_item_def queue_item_id_nonempty)
  show "item_status (new_queue_item e c) = ''pending''" by (simp add: new_queue_item_def)
  show "item_content (new_queue_item e c) = c" by (simp add: new_queue_item_def)
qed

theorem publish_degrades_to_queue_witness:
  "validateContent post50 \<and> \<not> autoPublish (cfg queue_only) \<and>
   fst (publish queue_only env1 post50) = Queued qid1 \<and>
   getQueue (snd (publish queue_only env1 post50)) ''pending'' = [new_queue_item env1 post50] \<and>
   \<not> validateContent empty_post \<and>
   publish queue_only env1 empty_post =
     (FailedQueued InvalidContentStructure (Queued qid1), queue_only\<lparr>queue := [new_queue_item env1 empty_post]\<rparr>) \<and>
   autoPublish (cfg auto_publisher) \<and> accessToken (cfg auto_publisher) \<noteq> None \<and>
   attemptAutoPublish (cfg auto_publisher) env_unauthorized post50 = Inl AuthenticationFailed \<and>
   publish auto_publisher env_unauthorized post50 =
     (FailedQueued AuthenticationFailed (Queued (item_id (new_queue_item env_unauthorized post50))),
      auto_publisher\<lparr>queue := [new_queue_item env_unauthorized post50]\<rparr>)"
  using publish_degrades_to_queue [of post50 queue_only env1 AuthenticationFailed]
    publish_degrades_to_queue [of empty_post queue_only env1 AuthenticationFailed]
    publish_degrades_to_queue [of post50 auto_publisher env_unauthorized AuthenticationFailed]
  by (simp add: validateContent_def post50_def empty_post_def queue_only_def auto_publisher_def
      qid1_def new_queue_item_def getQueue_def attemptAutoPublish_def env_unauthorized_def
      post_unauthorized_def)

text \<open>
  With auto-publish disabled and no token, a content whose text is empty is queued, but the
  status of the result is \<open>error\<close>, not \<open>queued\<close>: validation comes first.
\<close>

theorem publish_invalid_content_counterexample:
  "\<not> autoPublish (cfg queue_only) \<and> accessToken (cfg queue_only) = None \<and>
   result_status (fst (publish queue_only env1 empty_post)) = ''error'' \<and>
   result_status (fst (publish queue_only env1 empty_post)) \<noteq> ''queued''"
  by (simp add: queue_only_def empty_post_def publish_def validateContent_def publish_failed_eq)

subsection \<open>Content generation\<close>

lemma validatePrompt_builder_prompt: "validatePrompt builder_prompt = Inr True"
  by (simp add: validatePrompt_def builder_prompt_def)

lemma generateFallback_builder_prompt: "generateFallback builder_prompt stamp = Inl TypeError"
  by (simp add: generateFallback_def builder_prompt_def summary_excerpt_def)

text \<open>
  C2 claims that whenever the primary capability throws or times out, \<open>generate\<close> returns
  the fallback with a text. On a prompt that passes \<open>_validatePrompt\<close> and carries the
  metadata that \<open>PromptBuilder\<close> builds (which has no \<open>topic\<close>), with the inference call
  answered by status 503, \<open>_generateFallback\<close> itself raises a \<open>TypeError\<close> at
  \<open>metadata.topic.replace\<close>, and \<open>generate\<close> returns the error result: provider
  \<open>error\<close> and text \<open>null\<close>. The error is not propagated.
\<close>

theorem generate_fallback_throws:
  "validatePrompt builder_prompt = Inr True \<and>
   hf env_unavailable = HfThrows (Some 503) \<and>
   generate generator_with_token builder_prompt env_unavailable =
     (\<lparr>gen_text = None, gen_provider = ''error'', gen_model = None, gen_metadata = ErrorMessage TypeError\<rparr>,
      generator_with_token\<lparr>lastCallTime := 1700000000000\<rparr>)"
  by (simp add: generate_def validatePrompt_builder_prompt generateFallback_builder_prompt
      generateWithHuggingFace_def generator_with_token_def env_unavailable_def error_result_def)

text \<open>
  A prompt exactly as \<open>PromptBuilder.buildPrompt\<close> builds it has no \<open>context\<close>: it fails
  \<open>_validatePrompt\<close>, and \<open>generate\<close> returns the error result before it tries the
  primary capability or the fallback.
\<close>

lemma generate_rejects_built_prompt:
  "generate generator_with_token built_prompt env_unavailable =
     (error_result InvalidPromptStructure, generator_with_token)"
  by (simp add: generate_def validatePrompt_def built_prompt_def)

text \<open>
  Where the prompt has a string \<open>metadata.topic\<close> and a \<open>context.summary\<close> that is
  absent or a string, the fallback is what \<open>generate\<close> returns when the primary capability
  is unavailable, throws or answers without a text.
\<close>

lemma fallback_text_nonempty: "fallback_text t x \<noteq> []"
  by (simp add: fallback_text_def)

lemma generate_fallback_on_failure:
  assumes "validatePrompt prompt = Inr True"
    and "get_prop prompt ''metadata'' = Inr meta" and "get_prop meta ''topic'' = Inr (JStr t)"
    and "get_prop prompt ''context'' = Inr ctx" and "get_prop ctx ''summary'' = Inr summary"
    and "summary_excerpt summary = Inr x"
    and "hfToken g = None \<or> hf e = HfThrows status \<or> hf e = HfNoText"
  shows "gen_provider (fst (generate g prompt e)) = ''fallback'' \<and>
         gen_text (fst (generate g prompt e)) = Some (fallback_text t x)"
proof -
  from assms(7) have "generateWithHuggingFace (g\<lparr>lastCallTime := clock_after_wait e\<rparr>) e = None"
    by (auto simp: generateWithHuggingFace_def split: option.splits)
  then show ?thesis using assms(1-6)
    by (simp add: generate_def generateFallback_def finish_generation_def validateOutput_def
        Let_def fallback_text_nonempty)
qed

lemma generate_fallback_on_failure_example:
  "gen_provider (fst (generate generator_with_token topic_prompt env_unavailable)) = ''fallback'' \<and>
   gen_text (fst (generate generator_with_token topic_prompt env_unavailable)) =
     Some (fallback_text ''Queue support'' ''A manual-review queue was added'')"
  by (simp add: generate_def generateFallback_def finish_generation_def validateOutput_def
      generateWithHuggingFace_def topic_prompt_def validatePrompt_def summary_excerpt_def
      env_unavailable_def generator_with_token_def fallback_text_nonempty)


end
